theory Spec2Isabelle
  imports Main "HOL-Library.Sublist" "HOL-Library.Char_ord" "HOL-Library.List_Lexorder"
    "HOL-Library.Multiset" "HOL-Library.Code_Target_Nat"
begin

section \<open>Strings\<close>

text \<open>
  A JavaScript string is a sequence of UTF-16 code units: a \<open>jsstring\<close> is the list of
  their numbers. Strings are compared, as JavaScript compares them, code unit by code
  unit, a proper prefix being smaller: this is the order of \<open>List_Lexorder\<close>. The
  components of a serialised URL are ASCII and are kept as \<^typ>\<open>string\<close>; \<open>js\<close> turns an
  ASCII literal into the JavaScript string.
\<close>

type_synonym jsstring = "nat list"

definition js :: "string \<Rightarrow> jsstring" where
  "js s = map of_char s"

section \<open>Regular expressions\<close>

text \<open>
  The fragment of JavaScript regular expressions that \<open>looksLikeTracking\<close> uses:
  literal code units, \<open>.\<close>, sequencing, \<open>( )?\<close> and \<open>*\<close>, with the anchors \<open>^\<close> and \<open>$\<close> at
  the two ends only. \<open>Fail\<close> and \<open>Alt\<close> arise in derivatives. A pattern is a triple: anchored
  at the start, the body, anchored at the end.
\<close>

datatype rexp =
    Fail
  | Eps
  | Chr nat
  | Dot
  | Seq rexp rexp
  | Alt rexp rexp
  | Opt rexp
  | Star rexp

type_synonym regex = "bool \<times> rexp \<times> bool"

text \<open>\<open>.\<close> matches any code unit but a line terminator.\<close>

definition line_terminator :: "nat \<Rightarrow> bool" where
  "line_terminator c = (c = 0x0A \<or> c = 0x0D \<or> c = 0x2028 \<or> c = 0x2029)"

fun lit :: "jsstring \<Rightarrow> rexp" where
  "lit [] = Eps"
| "lit (c # cs) = Seq (Chr c) (lit cs)"

fun nullable :: "rexp \<Rightarrow> bool" where
  "nullable Fail = False"
| "nullable Eps = True"
| "nullable (Chr c) = False"
| "nullable Dot = False"
| "nullable (Seq r s) = (nullable r \<and> nullable s)"
| "nullable (Alt r s) = (nullable r \<or> nullable s)"
| "nullable (Opt r) = True"
| "nullable (Star r) = True"

fun deriv :: "nat \<Rightarrow> rexp \<Rightarrow> rexp" where
  "deriv c Fail = Fail"
| "deriv c Eps = Fail"
| "deriv c (Chr d) = (if c = d then Eps else Fail)"
| "deriv c Dot = (if line_terminator c then Fail else Eps)"
| "deriv c (Seq r s) =
     (if nullable r then Alt (Seq (deriv c r) s) (deriv c s) else Seq (deriv c r) s)"
| "deriv c (Alt r s) = Alt (deriv c r) (deriv c s)"
| "deriv c (Opt r) = deriv c r"
| "deriv c (Star r) = Seq (deriv c r) (Star r)"

text \<open>
  \<open>match_here r e s\<close>: some prefix of \<open>s\<close> (the whole of \<open>s\<close> when the pattern ends in \<open>$\<close>)
  matches \<open>r\<close>. \<open>regex_test\<close> is \<open>RegExp.prototype.test\<close>: the match may start at any
  position, at position 0 only when the pattern starts with \<open>^\<close>.
\<close>

fun match_here :: "rexp \<Rightarrow> bool \<Rightarrow> jsstring \<Rightarrow> bool" where
  "match_here r e [] = nullable r"
| "match_here r e (c # cs) = ((\<not> e \<and> nullable r) \<or> match_here (deriv c r) e cs)"

fun match_from :: "bool \<Rightarrow> rexp \<Rightarrow> bool \<Rightarrow> jsstring \<Rightarrow> bool" where
  "match_from a r e [] = match_here r e []"
| "match_from a r e (c # cs) = (match_here r e (c # cs) \<or> (\<not> a \<and> match_from a r e cs))"

fun regex_test :: "regex \<Rightarrow> jsstring \<Rightarrow> bool" where
  "regex_test (a, r, e) s = match_from a r e s"

text \<open>
  The language of a pattern body, by which the matcher is justified: \<open>regex_test\<close> finds
  a match exactly when some substring of the subject, placed as the anchors require, is
  in the language.
\<close>

inductive_set star :: "jsstring set \<Rightarrow> jsstring set" for A :: "jsstring set" where
  star_nil: "[] \<in> star A"
| star_app: "u \<in> A \<Longrightarrow> v \<in> star A \<Longrightarrow> u @ v \<in> star A"

fun lang :: "rexp \<Rightarrow> jsstring set" where
  "lang Fail = {}"
| "lang Eps = {[]}"
| "lang (Chr c) = {[c]}"
| "lang Dot = {[c] | c. \<not> line_terminator c}"
| "lang (Seq r s) = {u @ v | u v. u \<in> lang r \<and> v \<in> lang s}"
| "lang (Alt r s) = lang r \<union> lang s"
| "lang (Opt r) = insert [] (lang r)"
| "lang (Star r) = star (lang r)"

section \<open>The tracking-parameter classifier\<close>

definition PARAMS_TO_REMOVE :: "jsstring list" where
  "PARAMS_TO_REMOVE = map js
     [''utm_source'', ''utm_medium'', ''utm_campaign'', ''utm_term'', ''utm_content'',
      ''fbclid'', ''ref'', ''ref_src'', ''source'',
      ''_ga'', ''_gl'', ''_tracking'',
      ''gclid'', ''gclsrc'', ''dclid'', ''affiliate_id'', ''affiliate'', ''mc_cid'',
      ''mc_eid'', ''zanpid'', ''msclkid'', ''_hsenc'', ''_hsmi'', ''igshid'', ''mkt_tok'',
      ''session_id'', ''user_id'', ''visitor_id'',
      ''platform'', ''device'', ''device_id'',
      ''timestamp'', ''ts'', ''time'',
      ''cache'', ''nocache'', ''bust'', ''cb'']"

definition PARAMS_TO_KEEP :: "jsstring list" where
  "PARAMS_TO_KEEP = map js
     [''page'', ''q'', ''search'', ''id'', ''category'', ''type'', ''sort'', ''filter'']"

definition trackingPatterns :: "regex list" where
  "trackingPatterns =
     [(True, Seq (lit (js ''_'')) (Star Dot), False),
      (False, Seq (Star Dot) (lit (js ''id'')), True),
      (False, Seq (Star Dot) (Seq (lit (js ''click'')) (Star Dot)), False),
      (False, Seq (lit (js ''track'')) (Opt (lit (js ''ing''))), False),
      (False, Seq (lit (js ''ref'')) (Opt (Seq (lit (js ''er'')) (Opt (lit (js ''r''))))), False),
      (False, lit (js ''campaign''), False),
      (True, lit (js ''src''), True),
      (False, lit (js ''affiliate''), False),
      (True, Seq (lit (js ''s_'')) (Star Dot), False)]"

text \<open>
  \<open>String.prototype.toLowerCase\<close> is a function of the platform, a parameter here: what
  the classifier does with the lower-cased name is the same whatever the function is.
\<close>

definition looksLikeTracking :: "(jsstring \<Rightarrow> jsstring) \<Rightarrow> jsstring \<Rightarrow> bool" where
  "looksLikeTracking toLowerCase param =
     (if toLowerCase param \<in> set PARAMS_TO_KEEP then False
      else list_ex (\<lambda>pattern. regex_test pattern (toLowerCase param)) trackingPatterns)"

text \<open>The test of the query loop of \<open>cleanUrl\<close>, for a key, under the flag \<open>removeTracking\<close>.\<close>

definition shouldRemove :: "(jsstring \<Rightarrow> jsstring) \<Rightarrow> bool \<Rightarrow> jsstring \<Rightarrow> bool" where
  "shouldRemove toLowerCase removeTracking key =
     (removeTracking
      \<and> (toLowerCase key \<in> set PARAMS_TO_REMOVE \<or> looksLikeTracking toLowerCase key))"

section \<open>The platform's URL object\<close>

text \<open>
  \<open>cleanUrl\<close> works on the \<open>URL\<close> class of the platform (the WHATWG URL Standard). Its
  state is the URL record of the standard, for a URL that has a host: \<open>protocol\<close> is the
  scheme with its colon, as the getter returns it; \<open>port\<close> is the empty string when the
  port is null; \<open>query\<close> and \<open>fragment\<close> are \<open>None\<close> when null. URLs without a host
  (\<open>mailto:\<close>, \<open>data:\<close>) are not covered.
\<close>

record url =
  protocol :: string
  username :: string
  password :: string
  hostname :: string
  port :: string
  pathname :: string
  query :: "string option"
  fragment :: "string option"

definition search :: "url \<Rightarrow> string" where
  "search u = (case query u of None \<Rightarrow> [] | Some q \<Rightarrow> if q = [] then [] else CHR ''?'' # q)"

definition hash :: "url \<Rightarrow> string" where
  "hash u = (case fragment u of None \<Rightarrow> [] | Some f \<Rightarrow> if f = [] then [] else CHR ''#'' # f)"

definition credentials :: "url \<Rightarrow> string" where
  "credentials u =
     (if username u = [] \<and> password u = [] then []
      else username u @ (if password u = [] then [] else CHR '':'' # password u) @ ''@'')"

definition href :: "url \<Rightarrow> string" where
  "href u =
     protocol u @ ''//'' @ credentials u @ hostname u
     @ (if port u = [] then [] else CHR '':'' # port u)
     @ pathname u
     @ (case query u of None \<Rightarrow> [] | Some q \<Rightarrow> CHR ''?'' # q)
     @ (case fragment u of None \<Rightarrow> [] | Some f \<Rightarrow> CHR ''#'' # f)"

definition is_special :: "string \<Rightarrow> bool" where
  "is_special p = (p \<in> set [''ftp:'', ''file:'', ''http:'', ''https:'', ''ws:'', ''wss:''])"

definition default_port :: "string \<Rightarrow> string" where
  "default_port p =
     (if p = ''http:'' \<or> p = ''ws:'' then ''80''
      else if p = ''https:'' \<or> p = ''wss:'' then ''443''
      else if p = ''ftp:'' then ''21''
      else [])"

text \<open>
  The setters. \<open>url.protocol = v\<close> does nothing when it would turn a special scheme into a
  non-special one or back, or make a \<open>file:\<close> URL with credentials or a port; otherwise it
  sets the scheme and drops a port that is the default of the new scheme.
\<close>

definition set_protocol :: "string \<Rightarrow> url \<Rightarrow> url" where
  "set_protocol v u =
     (if is_special (protocol u) \<noteq> is_special v then u
      else if (credentials u \<noteq> [] \<or> port u \<noteq> []) \<and> v = ''file:'' then u
      else if protocol u = ''file:'' \<and> hostname u = [] then u
      else u\<lparr>protocol := v, port := (if port u = default_port v then [] else port u)\<rparr>)"

text \<open>
  \<open>url.hostname = v\<close> refuses the empty host for a special scheme. \<open>cleanUrl\<close> passes the
  rest of a parsed host after its first label \<open>www\<close>, which is taken to be a host that
  the host parser accepts as it is.
\<close>

definition set_hostname :: "string \<Rightarrow> url \<Rightarrow> url" where
  "set_hostname v u = (if v = [] \<and> is_special (protocol u) then u else u\<lparr>hostname := v\<rparr>)"

text \<open>\<open>url.port = ""\<close>.\<close>

definition clear_port :: "url \<Rightarrow> url" where
  "clear_port u = u\<lparr>port := []\<rparr>"

text \<open>
  \<open>url.search = v\<close>: the empty string makes the query null; otherwise one leading \<open>?\<close> is
  dropped. The value \<open>cleanUrl\<close> passes is the output of the form serialiser, which the
  query encoder leaves as it is.
\<close>

definition set_search :: "string \<Rightarrow> url \<Rightarrow> url" where
  "set_search v u =
     (if v = [] then u\<lparr>query := None\<rparr>
      else u\<lparr>query := Some (if hd v = CHR ''?'' then tl v else v)\<rparr>)"

text \<open>\<open>url.hash = ""\<close>.\<close>

definition clear_hash :: "url \<Rightarrow> url" where
  "clear_hash u = u\<lparr>fragment := None\<rparr>"

text \<open>
  \<open>url.pathname = v\<close> parses \<open>v\<close> again as a path. \<open>cleanUrl\<close> passes a parsed path whose
  runs of slashes are collapsed, less one trailing slash perhaps: parsing it again changes
  nothing, except that the empty path of a special URL is \<open>/\<close>.
\<close>

definition set_pathname :: "string \<Rightarrow> url \<Rightarrow> url" where
  "set_pathname v u = u\<lparr>pathname := (if v = [] \<and> is_special (protocol u) then ''/'' else v)\<rparr>"

section \<open>The platform's strings and URLSearchParams\<close>

text \<open>
  Three more functions of the platform are parameters: \<open>String.prototype.toLowerCase\<close>,
  the constructor \<open>new URLSearchParams(init)\<close> for a string \<open>init\<close>, which yields the
  decoded entries in order, and \<open>URLSearchParams.prototype.toString\<close>, which serialises
  a list of entries. The keys and values of the entries are JavaScript strings.
\<close>

record platform =
  toLowerCase :: "jsstring \<Rightarrow> jsstring"
  URLSearchParams_new :: "string \<Rightarrow> (jsstring \<times> jsstring) list"
  URLSearchParams_toString :: "(jsstring \<times> jsstring) list \<Rightarrow> string"

text \<open>
  \<open>Array.prototype.sort\<close> without a comparator orders the elements by their string
  forms, and is stable. The string form of an entry \<open>[key, value]\<close> is the key, a comma
  and the value.
\<close>

definition entry_string :: "jsstring \<times> jsstring \<Rightarrow> jsstring" where
  "entry_string e = fst e @ js '','' @ snd e"

definition array_sort :: "(jsstring \<times> jsstring) list \<Rightarrow> (jsstring \<times> jsstring) list" where
  "array_sort es = sort_key entry_string es"

section \<open>The HTTPS probe\<close>

text \<open>
  \<open>fetch\<close> is a capability of the platform, a parameter here: the request either is
  rejected (a timeout, a connection error, a malformed response: \<open>fetch\<close> throws) or
  yields a response, of which \<open>canUseHttps\<close> reads the field \<open>ok\<close>.
\<close>

datatype fetch_result = Rejected | Response bool

definition replace_http :: "string \<Rightarrow> string" where
  "replace_http url = (if prefix ''http:'' url then ''https:'' @ drop 5 url else url)"

definition canUseHttps :: "(string \<Rightarrow> fetch_result) \<Rightarrow> string \<Rightarrow> bool" where
  "canUseHttps fetch url =
     (case fetch (replace_http url) of Rejected \<Rightarrow> False | Response ok \<Rightarrow> ok)"

section \<open>cleanUrl\<close>

text \<open>
  The options object: a flag that is absent is \<open>None\<close>. The destructuring pattern of
  \<open>cleanUrl\<close> gives every absent flag the value \<open>true\<close>, and an absent options argument
  is the empty object.
\<close>

record options =
  tryHttps :: "bool option"
  removeWww :: "bool option"
  removeTrailingSlash :: "bool option"
  removeFragment :: "bool option"
  removeTracking :: "bool option"
  sortParams :: "bool option"
  removeEmptyParams :: "bool option"
  removeDefaultPorts :: "bool option"

definition empty_options :: options where
  "empty_options =
     \<lparr>tryHttps = None, removeWww = None, removeTrailingSlash = None, removeFragment = None,
      removeTracking = None, sortParams = None, removeEmptyParams = None,
      removeDefaultPorts = None\<rparr>"

definition flag :: "bool option \<Rightarrow> bool" where
  "flag f = (case f of None \<Rightarrow> True | Some b \<Rightarrow> b)"

datatype error = Error string

record result =
  original :: string
  cleaned :: string
  changes :: "string list"

text \<open>
  The body of \<open>cleanUrl\<close> after parsing, block by block in the order of the source; each
  block takes the URL object and the change log and returns them updated.
\<close>

fun upgradeHttps ::
  "(string \<Rightarrow> fetch_result) \<Rightarrow> options \<Rightarrow> url \<times> string list \<Rightarrow> url \<times> string list" where
  "upgradeHttps fetch opts (u, ch) =
     (if flag (tryHttps opts) \<and> protocol u = ''http:'' then
        (if canUseHttps fetch (href u)
         then (set_protocol ''https:'' u, ch @ [''Upgraded to HTTPS''])
         else (u, ch))
      else (u, ch))"

fun stripWww :: "options \<Rightarrow> url \<times> string list \<Rightarrow> url \<times> string list" where
  "stripWww opts (u, ch) =
     (if flag (removeWww opts) \<and> prefix ''www.'' (hostname u)
      then (set_hostname (drop 4 (hostname u)) u, ch @ [''Removed www prefix''])
      else (u, ch))"

fun dropDefaultPort :: "options \<Rightarrow> url \<times> string list \<Rightarrow> url \<times> string list" where
  "dropDefaultPort opts (u, ch) =
     (if flag (removeDefaultPorts opts) then
        (if (protocol u = ''http:'' \<and> port u = ''80'')
            \<or> (protocol u = ''https:'' \<and> port u = ''443'')
         then (clear_port u, ch @ [''Removed default port''])
         else (u, ch))
      else (u, ch))"

definition cleanedParams ::
  "platform \<Rightarrow> options \<Rightarrow> (jsstring \<times> jsstring) list \<Rightarrow> (jsstring \<times> jsstring) list" where
  "cleanedParams pf opts searchParams =
     filter (\<lambda>(key, val).
        \<not> shouldRemove (toLowerCase pf) (flag (removeTracking opts)) key
        \<and> (\<not> flag (removeEmptyParams opts) \<or> length val > 0)) searchParams"

fun cleanSearch :: "platform \<Rightarrow> options \<Rightarrow> url \<times> string list \<Rightarrow> url \<times> string list" where
  "cleanSearch pf opts (u, ch) =
     (if search u \<noteq> [] then
        (let searchParams = URLSearchParams_new pf (search u);
             originalParamCount = length (URLSearchParams_toString pf searchParams);
             kept = cleanedParams pf opts searchParams;
             u' = (if flag (sortParams opts)
                   then set_search (URLSearchParams_toString pf (array_sort kept)) u
                   else set_search (URLSearchParams_toString pf kept) u)
         in if length (search u') \<noteq> originalParamCount
            then (u', ch @ [''Removed tracking parameters''])
            else (u', ch))
      else (u, ch))"

fun dropFragment :: "options \<Rightarrow> url \<times> string list \<Rightarrow> url \<times> string list" where
  "dropFragment opts (u, ch) =
     (if flag (removeFragment opts) \<and> hash u \<noteq> []
      then (clear_hash u, ch @ [''Removed URL fragment''])
      else (u, ch))"

text \<open>\<open>path.replace(/\/+/g, "/")\<close>: every run of slashes becomes one slash.\<close>

fun collapse_slashes :: "string \<Rightarrow> string" where
  "collapse_slashes (c # d # cs) =
     (if c = CHR ''/'' \<and> d = CHR ''/'' then collapse_slashes (d # cs)
      else c # collapse_slashes (d # cs))"
| "collapse_slashes cs = cs"

fun normalizePath :: "options \<Rightarrow> url \<times> string list \<Rightarrow> url \<times> string list" where
  "normalizePath opts (u, ch) =
     (if pathname u \<noteq> ''/'' then
        (let path1 = collapse_slashes (pathname u);
             path2 = (if flag (removeTrailingSlash opts) \<and> suffix ''/'' path1
                      then butlast path1 else path1)
         in if path2 \<noteq> pathname u
            then (set_pathname path2 u, ch @ [''Normalized path''])
            else (u, ch))
      else (u, ch))"

definition cleanParsed ::
  "(string \<Rightarrow> fetch_result) \<Rightarrow> platform \<Rightarrow> options \<Rightarrow> url \<Rightarrow> url \<times> string list" where
  "cleanParsed fetch pf opts u =
     normalizePath opts (dropFragment opts (cleanSearch pf opts (dropDefaultPort opts
       (stripWww opts (upgradeHttps fetch opts (u, []))))))"

text \<open>
  \<open>cleanUrl\<close> itself. \<open>URL_new\<close> is the constructor \<open>new URL(inputUrl)\<close> of the platform,
  a parameter: \<open>None\<close> when it throws. The options argument is \<open>None\<close> when omitted.
\<close>

definition given_options :: "options option \<Rightarrow> options" where
  "given_options opts = (case opts of None \<Rightarrow> empty_options | Some os \<Rightarrow> os)"

definition cleanUrl ::
  "(string \<Rightarrow> url option) \<Rightarrow> (string \<Rightarrow> fetch_result) \<Rightarrow> platform \<Rightarrow> string
     \<Rightarrow> options option \<Rightarrow> error + result" where
  "cleanUrl URL_new fetch pf inputUrl opts =
     (case URL_new inputUrl of
        None \<Rightarrow> Inl (Error (''Invalid URL: '' @ inputUrl))
      | Some u \<Rightarrow>
          (let st = cleanParsed fetch pf (given_options opts) u
           in Inr \<lparr>original = href u, cleaned = href (fst st), changes = snd st\<rparr>))"

section \<open>Auxiliary notions\<close>

text \<open>The list of entries that the query block serialises into \<open>url.search\<close>.\<close>

definition sentParams :: "platform \<Rightarrow> options \<Rightarrow> string \<Rightarrow> (jsstring \<times> jsstring) list" where
  "sentParams pf opts srch =
     (if flag (sortParams opts)
      then array_sort (cleanedParams pf opts (URLSearchParams_new pf srch))
      else cleanedParams pf opts (URLSearchParams_new pf srch))"

text \<open>The query that \<open>url.search = v\<close> writes.\<close>

definition written_query :: "string \<Rightarrow> string option" where
  "written_query v = (if v = [] then None else Some (if hd v = CHR ''?'' then tl v else v))"

text \<open>
  The sort that the specification words describe, for comparison with \<open>array_sort\<close>: a
  stable sort by key only.
\<close>

definition stable_sort_by_key :: "(jsstring \<times> jsstring) list \<Rightarrow> (jsstring \<times> jsstring) list" where
  "stable_sort_by_key es = sort_key fst es"

section \<open>The platform on plain queries\<close>

text \<open>
  For the concrete runs below: \<open>toLowerCase\<close> on the letters \<open>A\<close> to \<open>Z\<close>, and the
  \<open>application/x-www-form-urlencoded\<close> parser and serialiser on bytes. They do what the
  platform does when every decoded name and value is ASCII; beyond ASCII the platform
  folds other letters and decodes and encodes UTF-8, which these do not, so only their
  results on ASCII names and values speak for the platform.
\<close>

definition lower_units :: "jsstring \<Rightarrow> jsstring" where
  "lower_units s = map (\<lambda>c. if 65 \<le> c \<and> c \<le> 90 then c + 32 else c) s"

text \<open>\<open>String.prototype.split\<close> at a character: always at least one piece.\<close>

fun split_on :: "char \<Rightarrow> string \<Rightarrow> string list" where
  "split_on d [] = [[]]"
| "split_on d (c # cs) =
     (if c = d then [] # split_on d cs
      else (case split_on d cs of [] \<Rightarrow> [[c]] | p # ps \<Rightarrow> (c # p) # ps))"

definition hex_val :: "char \<Rightarrow> nat option" where
  "hex_val c =
     (if CHR ''0'' \<le> c \<and> c \<le> CHR ''9'' then Some (of_char c - 48)
      else if CHR ''A'' \<le> c \<and> c \<le> CHR ''F'' then Some (of_char c - 55)
      else if CHR ''a'' \<le> c \<and> c \<le> CHR ''f'' then Some (of_char c - 87)
      else None)"

fun percent_decode :: "string \<Rightarrow> string" where
  "percent_decode (c # h # l # cs) =
     (if c = CHR ''%'' then
        (case (hex_val h, hex_val l) of
           (Some a, Some b) \<Rightarrow> char_of (16 * a + b) # percent_decode cs
         | _ \<Rightarrow> c # percent_decode (h # l # cs))
      else c # percent_decode (h # l # cs))"
| "percent_decode cs = cs"

definition plus_to_space :: "string \<Rightarrow> string" where
  "plus_to_space s = map (\<lambda>c. if c = CHR ''+'' then CHR '' '' else c) s"

text \<open>
  The \<open>application/x-www-form-urlencoded\<close> parser: split at \<open>&\<close>, skip the empty pieces,
  split each piece at its first \<open>=\<close>, turn \<open>+\<close> into a space and percent-decode.
\<close>

definition parse_pair :: "string \<Rightarrow> string \<times> string" where
  "parse_pair sq =
     (percent_decode (plus_to_space (takeWhile (\<lambda>c. c \<noteq> CHR ''='') sq)),
      percent_decode (plus_to_space (drop 1 (dropWhile (\<lambda>c. c \<noteq> CHR ''='') sq))))"

definition urlencoded_parse :: "string \<Rightarrow> (string \<times> string) list" where
  "urlencoded_parse s = map parse_pair (filter (\<lambda>sq. sq \<noteq> []) (split_on CHR ''&'' s))"

text \<open>\<open>new URLSearchParams(init)\<close> for a string: one leading \<open>?\<close> is dropped.\<close>

definition plain_params_new :: "string \<Rightarrow> (jsstring \<times> jsstring) list" where
  "plain_params_new init =
     map (\<lambda>(k, v). (js k, js v))
       (urlencoded_parse (if init \<noteq> [] \<and> hd init = CHR ''?'' then tl init else init))"

definition alnum :: "char \<Rightarrow> bool" where
  "alnum c =
     ((CHR ''0'' \<le> c \<and> c \<le> CHR ''9'') \<or> (CHR ''A'' \<le> c \<and> c \<le> CHR ''Z'')
      \<or> (CHR ''a'' \<le> c \<and> c \<le> CHR ''z''))"

definition hex_digit :: "nat \<Rightarrow> char" where
  "hex_digit n = ''0123456789ABCDEF'' ! n"

definition urlencoded_byte :: "char \<Rightarrow> string" where
  "urlencoded_byte c =
     (if c = CHR '' '' then ''+''
      else if alnum c \<or> c \<in> set ''*-._'' then [c]
      else [CHR ''%'', hex_digit (of_char c div 16), hex_digit (of_char c mod 16)])"

definition urlencoded_string :: "string \<Rightarrow> string" where
  "urlencoded_string s = concat (map urlencoded_byte s)"

fun join :: "string \<Rightarrow> string list \<Rightarrow> string" where
  "join d [] = []"
| "join d [x] = x"
| "join d (x # y # ys) = x @ d @ join d (y # ys)"

text \<open>\<open>URLSearchParams.prototype.toString\<close>.\<close>

definition plain_params_toString :: "(jsstring \<times> jsstring) list \<Rightarrow> string" where
  "plain_params_toString ps =
     join ''&'' (map (\<lambda>(k, v). urlencoded_string (map char_of k) @ ''=''
                       @ urlencoded_string (map char_of v)) ps)"

definition plain_platform :: platform where
  "plain_platform =
     \<lparr>toLowerCase = lower_units, URLSearchParams_new = plain_params_new,
      URLSearchParams_toString = plain_params_toString\<rparr>"

section \<open>A parser for plain web addresses\<close>

text \<open>
  For the concrete runs below, \<open>parseUrl\<close> does what \<open>new URL\<close> does on the plain
  addresses \<open>scheme://host[:port][path][?query][#fragment]\<close> with scheme \<open>http\<close> or
  \<open>https\<close>, a host of non-empty labels of letters, digits and hyphens whose last label
  starts with a letter, a decimal port without leading zeros, and a path, query and
  fragment of characters the parser neither encodes nor interprets (no \<open>.\<close> or \<open>..\<close>
  segment). Scheme and host are lower-cased, the default port is dropped, the empty path
  is \<open>/\<close>. It answers \<open>None\<close> for every other string, so only its results on plain addresses
  and on strings without a scheme speak for the platform.
\<close>

definition lower_char :: "char \<Rightarrow> char" where
  "lower_char c =
     (if CHR ''A'' \<le> c \<and> c \<le> CHR ''Z'' then char_of (of_char c + (32::nat)) else c)"

definition ascii_lower :: "string \<Rightarrow> string" where
  "ascii_lower s = map lower_char s"

definition digit :: "char \<Rightarrow> bool" where
  "digit c = (CHR ''0'' \<le> c \<and> c \<le> CHR ''9'')"

definition letter :: "char \<Rightarrow> bool" where
  "letter c = (CHR ''a'' \<le> c \<and> c \<le> CHR ''z'')"

definition plain_label :: "string \<Rightarrow> bool" where
  "plain_label l =
     (l \<noteq> [] \<and> list_all (\<lambda>c. letter c \<or> digit c \<or> c = CHR ''-'') l \<and> \<not> prefix ''xn--'' l)"

definition plain_host :: "string \<Rightarrow> bool" where
  "plain_host h =
     (let ls = split_on CHR ''.'' h
      in list_all plain_label ls \<and> (case last ls of [] \<Rightarrow> False | c # cs \<Rightarrow> letter c))"

definition plain_port :: "string \<Rightarrow> bool" where
  "plain_port p =
     (list_all digit p \<and> (p = ''0'' \<or> \<not> prefix ''0'' p)
      \<and> (length p < 5 \<or> (length p = 5 \<and> p \<le> ''65535'')))"

definition plain_path :: "string \<Rightarrow> bool" where
  "plain_path p =
     (list_all (\<lambda>c. alnum c \<or> c \<in> set ''-_~/.'') p
      \<and> list_all (\<lambda>seg. seg \<noteq> ''.'' \<and> seg \<noteq> ''..'') (split_on CHR ''/'' p))"

definition plain_query :: "string \<Rightarrow> bool" where
  "plain_query q = list_all (\<lambda>c. alnum c \<or> c \<in> set ''-_~/.&=+%*'') q"

definition plain_fragment :: "string \<Rightarrow> bool" where
  "plain_fragment f = list_all (\<lambda>c. alnum c \<or> c \<in> set ''-_~/.'') f"

definition parseUrl :: "string \<Rightarrow> url option" where
  "parseUrl s =
     (let scheme = ascii_lower (takeWhile (\<lambda>c. c \<noteq> CHR '':'') s);
          r1 = dropWhile (\<lambda>c. c \<noteq> CHR '':'') s;
          r2 = drop 3 r1;
          authority = takeWhile (\<lambda>c. c \<notin> set ''/?#'') r2;
          r3 = dropWhile (\<lambda>c. c \<notin> set ''/?#'') r2;
          host = ascii_lower (takeWhile (\<lambda>c. c \<noteq> CHR '':'') authority);
          prt = drop 1 (dropWhile (\<lambda>c. c \<noteq> CHR '':'') authority);
          path = takeWhile (\<lambda>c. c \<notin> set ''?#'') r3;
          r4 = dropWhile (\<lambda>c. c \<notin> set ''?#'') r3;
          qry = takeWhile (\<lambda>c. c \<noteq> CHR ''#'') r4;
          frg = dropWhile (\<lambda>c. c \<noteq> CHR ''#'') r4
      in if (scheme = ''http'' \<or> scheme = ''https'') \<and> prefix ''://'' r1
            \<and> plain_host host \<and> plain_port prt \<and> plain_path path
            \<and> plain_query (drop 1 qry) \<and> plain_fragment (drop 1 frg)
         then Some \<lparr>protocol = scheme @ '':'', username = [], password = [],
                    hostname = host,
                    port = (if prt = default_port (scheme @ '':'') then [] else prt),
                    pathname = (if path = [] then ''/'' else path),
                    query = (if qry = [] then None else Some (drop 1 qry)),
                    fragment = (if frg = [] then None else Some (drop 1 frg))\<rparr>
         else None)"

text \<open>Two probes for the concrete runs: no HTTPS endpoint answers; every one answers.\<close>

definition probe_down :: "string \<Rightarrow> fetch_result" where
  "probe_down url = Rejected"

definition probe_up :: "string \<Rightarrow> fetch_result" where
  "probe_up url = Response True"

section \<open>Defaults of the options\<close>











section \<open>Unparseable input\<close>

text \<open>
  C6. When the input string does not parse, \<open>cleanUrl\<close> fails with the error that
  carries the string, and returns no result; and whenever \<open>cleanUrl\<close> fails, the input
  did not parse and the error is that one.
\<close>

theorem cleanUrl_fails_iff_unparseable:
  "(URL_new s = None \<longrightarrow> cleanUrl URL_new fetch pf s opts = Inl (Error (''Invalid URL: '' @ s)))
   \<and> (\<forall>e. cleanUrl URL_new fetch pf s opts = Inl e \<longrightarrow>
          URL_new s = None \<and> e = Error (''Invalid URL: '' @ s))"
  by (auto simp: cleanUrl_def Let_def split: option.splits)

theorem cleanUrl_fails_iff_unparseable_witness:
  "parseUrl ''not a url'' = None
   \<and> cleanUrl parseUrl probe_down plain_platform ''not a url'' (Some empty_options)
       = Inl (Error ''Invalid URL: not a url'')"
proof -
  have unparseable: "parseUrl ''not a url'' = None"
    by (simp add: parseUrl_def Let_def ascii_lower_def lower_char_def)
  have "cleanUrl parseUrl probe_down plain_platform ''not a url'' (Some empty_options)
          = Inl (Error (''Invalid URL: '' @ ''not a url''))"
    by (rule mp [OF conjunct1 [OF cleanUrl_fails_iff_unparseable
          [of parseUrl "''not a url''" probe_down plain_platform "Some empty_options"]] unparseable])
  then have "cleanUrl parseUrl probe_down plain_platform ''not a url'' (Some empty_options)
          = Inl (Error ''Invalid URL: not a url'')"
    by simp
  with unparseable show ?thesis by (rule conjI)
qed

section \<open>The classifier\<close>

lemma keep_remove_disjoint: "set PARAMS_TO_KEEP \<inter> set PARAMS_TO_REMOVE = {}"
  by (simp add: PARAMS_TO_KEEP_def PARAMS_TO_REMOVE_def js_def)

text \<open>
  C4. A parameter name whose lower-cased form is in the allow-list is not classified as
  tracking: \<open>looksLikeTracking\<close> answers false whatever the patterns say, no allow-listed
  name is in the deny-list, and so the query loop never drops the parameter. This holds
  for every lower-casing function, hence for that of the platform.
\<close>

theorem allow_list_takes_precedence:
  assumes "lower name \<in> set PARAMS_TO_KEEP"
  shows "looksLikeTracking lower name = False \<and> lower name \<notin> set PARAMS_TO_REMOVE
         \<and> shouldRemove lower rt name = False"
  using assms keep_remove_disjoint by (auto simp: looksLikeTracking_def shouldRemove_def)

theorem allow_list_takes_precedence_witness:
  "lower_units (js ''ID'') \<in> set PARAMS_TO_KEEP
   \<and> looksLikeTracking lower_units (js ''ID'') = False
   \<and> shouldRemove lower_units True (js ''ID'') = False
   \<and> regex_test (False, Seq (Star Dot) (lit (js ''id'')), True) (lower_units (js ''ID''))"
proof -
  have listed: "lower_units (js ''ID'') \<in> set PARAMS_TO_KEEP"
    by code_simp
  have pattern:
    "regex_test (False, Seq (Star Dot) (lit (js ''id'')), True) (lower_units (js ''ID''))"
    by code_simp
  from allow_list_takes_precedence
         [where lower = lower_units and name = "js ''ID''" and rt = True, OF listed]
       listed pattern
  show ?thesis by simp
qed

subsection \<open>The matcher finds the matches of the language\<close>

lemma star_Cons:
  "c # w \<in> star A \<longleftrightarrow> (\<exists>u v. w = u @ v \<and> c # u \<in> A \<and> v \<in> star A)"
proof
  assume "c # w \<in> star A"
  then show "\<exists>u v. w = u @ v \<and> c # u \<in> A \<and> v \<in> star A"
  proof (induction "c # w" rule: star.induct)
    case (star_app u v)
    show ?case
    proof (cases u)
      case Nil
      with star_app show ?thesis by simp
    next
      case (Cons d u')
      with star_app.hyps(1,2,4) show ?thesis by auto
    qed
  qed
next
  assume "\<exists>u v. w = u @ v \<and> c # u \<in> A \<and> v \<in> star A"
  then obtain u v where "w = u @ v" "c # u \<in> A" "v \<in> star A" by blast
  then show "c # w \<in> star A"
    using star_app[of "c # u" A v] by simp
qed

lemma nullable_lang: "nullable r \<longleftrightarrow> [] \<in> lang r"
  by (induction r) (auto intro: star_nil)

lemma Cons_in_Seq:
  "c # w \<in> lang (Seq r s) \<longleftrightarrow>
     ([] \<in> lang r \<and> c # w \<in> lang s) \<or> (\<exists>u v. w = u @ v \<and> c # u \<in> lang r \<and> v \<in> lang s)"
proof
  assume "c # w \<in> lang (Seq r s)"
  then obtain u v where uv: "c # w = u @ v" "u \<in> lang r" "v \<in> lang s" by auto
  show "([] \<in> lang r \<and> c # w \<in> lang s) \<or> (\<exists>u v. w = u @ v \<and> c # u \<in> lang r \<and> v \<in> lang s)"
  proof (cases u)
    case Nil
    with uv show ?thesis by simp
  next
    case (Cons d u')
    with uv have "w = u' @ v" "c # u' \<in> lang r" by auto
    with uv(3) show ?thesis by blast
  qed
next
  assume "([] \<in> lang r \<and> c # w \<in> lang s) \<or> (\<exists>u v. w = u @ v \<and> c # u \<in> lang r \<and> v \<in> lang s)"
  then show "c # w \<in> lang (Seq r s)"
  proof
    assume "[] \<in> lang r \<and> c # w \<in> lang s"
    then have "c # w = [] @ (c # w)" "[] \<in> lang r" "c # w \<in> lang s" by auto
    then show ?thesis unfolding lang.simps by blast
  next
    assume "\<exists>u v. w = u @ v \<and> c # u \<in> lang r \<and> v \<in> lang s"
    then obtain u v where "w = u @ v" "c # u \<in> lang r" "v \<in> lang s" by blast
    then have "c # w = (c # u) @ v" by simp
    with \<open>c # u \<in> lang r\<close> \<open>v \<in> lang s\<close> show ?thesis unfolding lang.simps by blast
  qed
qed

lemma deriv_lang: "w \<in> lang (deriv c r) \<longleftrightarrow> c # w \<in> lang r"
proof (induction r arbitrary: w)
  case (Seq r s)
  have "w \<in> lang (Seq (deriv c r) s) \<longleftrightarrow> (\<exists>u v. w = u @ v \<and> c # u \<in> lang r \<and> v \<in> lang s)"
    by (auto simp: Seq.IH(1))
  then show ?case
    unfolding Cons_in_Seq by (simp add: nullable_lang Seq.IH(2) del: lang.simps(5)) blast
next
  case (Star r)
  then show ?case by (auto simp: star_Cons)
qed auto

lemma match_here_lang:
  "match_here r e s \<longleftrightarrow> (\<exists>p q. s = p @ q \<and> p \<in> lang r \<and> (e \<longrightarrow> q = []))"
proof (induction s arbitrary: r)
  case Nil
  show ?case by (simp add: nullable_lang)
next
  case (Cons c cs)
  have "(\<exists>p q. c # cs = p @ q \<and> p \<in> lang r \<and> (e \<longrightarrow> q = []))
      \<longleftrightarrow> ([] \<in> lang r \<and> \<not> e) \<or> (\<exists>p q. cs = p @ q \<and> c # p \<in> lang r \<and> (e \<longrightarrow> q = []))"
    by (auto simp: Cons_eq_append_conv)
  then show ?case
    by (simp add: Cons nullable_lang deriv_lang) blast
qed

lemma match_from_lang:
  "match_from a r e s \<longleftrightarrow>
     (\<exists>pre p q. s = pre @ p @ q \<and> p \<in> lang r \<and> (a \<longrightarrow> pre = []) \<and> (e \<longrightarrow> q = []))"
proof (induction s)
  case Nil
  show ?case by (simp add: nullable_lang)
next
  case (Cons c cs)
  have key: "(\<exists>pre p q. c # cs = pre @ p @ q \<and> p \<in> lang r \<and> (a \<longrightarrow> pre = []) \<and> (e \<longrightarrow> q = []))
     \<longleftrightarrow> (\<exists>p q. c # cs = p @ q \<and> p \<in> lang r \<and> (e \<longrightarrow> q = []))
        \<or> (\<not> a \<and> (\<exists>pre p q. cs = pre @ p @ q \<and> p \<in> lang r \<and> (a \<longrightarrow> pre = [])
              \<and> (e \<longrightarrow> q = [])))"
    (is "?L \<longleftrightarrow> ?R1 \<or> ?R2")
  proof
    assume ?L
    then obtain pre p q where h: "c # cs = pre @ p @ q" "p \<in> lang r" "a \<longrightarrow> pre = []" "e \<longrightarrow> q = []"
      by blast
    show "?R1 \<or> ?R2"
    proof (cases pre)
      case Nil
      with h have "c # cs = p @ q" by simp
      with h(2,4) have ?R1 by blast
      then show ?thesis ..
    next
      case (Cons d pre')
      with h have "\<not> a" "cs = pre' @ p @ q" by auto
      with h(2,4) have ?R2 by blast
      then show ?thesis ..
    qed
  next
    assume "?R1 \<or> ?R2"
    then show ?L
    proof
      assume ?R1
      then obtain p q where "c # cs = [] @ p @ q" "p \<in> lang r" "e \<longrightarrow> q = []" by auto
      then show ?L by blast
    next
      assume ?R2
      then obtain pre p q where "\<not> a" "cs = pre @ p @ q" "p \<in> lang r" "e \<longrightarrow> q = []" by auto
      then have "c # cs = (c # pre) @ p @ q" by simp
      with \<open>\<not> a\<close> \<open>p \<in> lang r\<close> \<open>e \<longrightarrow> q = []\<close> show ?L by blast
    qed
  qed
  show ?case
    unfolding match_from.simps match_here_lang Cons.IH key ..
qed

lemma lang_lit: "lang (lit w) = {w}"
  by (induction w) auto

lemma test_unanchored:
  assumes "w \<in> lang r" and "\<And>p. p \<in> lang r \<Longrightarrow> sublist w p"
  shows "regex_test (False, r, False) s \<longleftrightarrow> sublist w s"
proof
  assume "regex_test (False, r, False) s"
  then obtain pre p q where "s = pre @ p @ q" "p \<in> lang r"
    by (auto simp: match_from_lang)
  with assms(2) show "sublist w s"
    by (auto simp: sublist_def) (metis append.assoc)
next
  assume "sublist w s"
  then obtain ps ss where "s = ps @ w @ ss" by (auto simp: sublist_def)
  with assms(1) show "regex_test (False, r, False) s"
    by (auto simp: match_from_lang)
qed

lemma test_starts:
  "regex_test (True, Seq (lit w) (Star Dot), False) s \<longleftrightarrow> prefix w s"
proof
  assume "regex_test (True, Seq (lit w) (Star Dot), False) s"
  then obtain p q where "s = p @ q" "p \<in> lang (Seq (lit w) (Star Dot))"
    by (auto simp: match_from_lang)
  then show "prefix w s" by (auto simp: lang_lit prefix_def)
next
  assume "prefix w s"
  then obtain q where "s = [] @ (w @ []) @ q" by (auto simp: prefix_def)
  moreover have "w @ [] \<in> lang (Seq (lit w) (Star Dot))"
    unfolding lang.simps lang_lit using star_nil by blast
  ultimately show "regex_test (True, Seq (lit w) (Star Dot), False) s"
    unfolding regex_test.simps match_from_lang by blast
qed

lemma test_ends:
  "regex_test (False, Seq (Star Dot) (lit w), True) s \<longleftrightarrow> suffix w s"
proof
  assume "regex_test (False, Seq (Star Dot) (lit w), True) s"
  then obtain pre p where "s = pre @ p" "p \<in> lang (Seq (Star Dot) (lit w))"
    by (auto simp: match_from_lang)
  then show "suffix w s" by (auto simp: lang_lit suffix_def)
next
  assume "suffix w s"
  then obtain pre where "s = pre @ ([] @ w) @ []" by (auto simp: suffix_def)
  moreover have "[] @ w \<in> lang (Seq (Star Dot) (lit w))"
    unfolding lang.simps lang_lit using star_nil by blast
  ultimately show "regex_test (False, Seq (Star Dot) (lit w), True) s"
    unfolding regex_test.simps match_from_lang by blast
qed

lemma test_exact: "regex_test (True, lit w, True) s \<longleftrightarrow> s = w"
  by (auto simp: match_from_lang lang_lit)

lemma test_literal: "regex_test (False, lit w, False) s \<longleftrightarrow> sublist w s"
  by (rule test_unanchored) (simp_all add: lang_lit)

lemma test_click:
  "regex_test (False, Seq (Star Dot) (Seq (lit (js ''click'')) (Star Dot)), False) s
     \<longleftrightarrow> sublist (js ''click'') s"
proof (rule test_unanchored)
  have "[] @ ((js ''click'') @ []) \<in> lang (Seq (Star Dot) (Seq (lit (js ''click'')) (Star Dot)))"
    unfolding lang.simps lang_lit using star_nil by blast
  then show "(js ''click'') \<in> lang (Seq (Star Dot) (Seq (lit (js ''click'')) (Star Dot)))" by simp
next
  fix p assume "p \<in> lang (Seq (Star Dot) (Seq (lit (js ''click'')) (Star Dot)))"
  then obtain u v where "p = u @ (js ''click'') @ v"
    unfolding lang.simps lang_lit by blast
  then show "sublist (js ''click'') p" unfolding sublist_def by blast
qed

lemma test_track:
  "regex_test (False, Seq (lit (js ''track'')) (Opt (lit (js ''ing''))), False) s \<longleftrightarrow> sublist (js ''track'') s"
proof (rule test_unanchored)
  have "(js ''track'') @ [] \<in> lang (Seq (lit (js ''track'')) (Opt (lit (js ''ing''))))"
    unfolding lang.simps lang_lit by blast
  then show "(js ''track'') \<in> lang (Seq (lit (js ''track'')) (Opt (lit (js ''ing''))))" by simp
next
  fix p assume "p \<in> lang (Seq (lit (js ''track'')) (Opt (lit (js ''ing''))))"
  then obtain v where "p = [] @ (js ''track'') @ v"
    unfolding lang.simps lang_lit by auto
  then show "sublist (js ''track'') p" unfolding sublist_def by blast
qed

lemma test_ref:
  "regex_test (False, Seq (lit (js ''ref'')) (Opt (Seq (lit (js ''er'')) (Opt (lit (js ''r''))))), False) s
     \<longleftrightarrow> sublist (js ''ref'') s"
proof (rule test_unanchored)
  have "(js ''ref'') @ [] \<in> lang (Seq (lit (js ''ref'')) (Opt (Seq (lit (js ''er'')) (Opt (lit (js ''r''))))))"
    unfolding lang.simps lang_lit by blast
  then show "(js ''ref'') \<in> lang (Seq (lit (js ''ref'')) (Opt (Seq (lit (js ''er'')) (Opt (lit (js ''r''))))))"
    by simp
next
  fix p assume "p \<in> lang (Seq (lit (js ''ref'')) (Opt (Seq (lit (js ''er'')) (Opt (lit (js ''r''))))))"
  then obtain v where "p = [] @ (js ''ref'') @ v"
    unfolding lang.simps lang_lit by auto
  then show "sublist (js ''ref'') p" unfolding sublist_def by blast
qed

lemma js_append: "js (a @ b) = js a @ js b"
  by (simp add: js_def)

lemma sublist_longer: "sublist (w @ x) s \<Longrightarrow> sublist w s"
  unfolding sublist_def by (metis append.assoc)

lemma looksLikeTracking_patterns:
  "looksLikeTracking lower name \<longleftrightarrow>
     lower name \<notin> set PARAMS_TO_KEEP \<and>
     (prefix (js ''_'') (lower name) \<or> suffix (js ''id'') (lower name)
      \<or> sublist (js ''click'') (lower name) \<or> sublist (js ''track'') (lower name)
      \<or> sublist (js ''ref'') (lower name) \<or> sublist (js ''campaign'') (lower name)
      \<or> lower name = (js ''src'') \<or> sublist (js ''affiliate'') (lower name)
      \<or> prefix (js ''s_'') (lower name))"
proof -
  show ?thesis
    unfolding looksLikeTracking_def trackingPatterns_def
    by (simp only: list_ex_Nil_iff list_ex_Cons_iff test_ends test_click test_track test_ref test_literal
        test_exact test_starts if_False if_True split: if_split) auto
qed

text \<open>
  C8. For a name whose lower-cased form is in neither list, the classifier (and with it
  the test of the query loop) answers true exactly when the lower-cased name begins with
  an underscore, ends with \<open>id\<close>, contains \<open>click\<close>, contains \<open>track\<close> or \<open>tracking\<close>,
  contains one of \<open>ref\<close>, \<open>refer\<close>, \<open>referr\<close>, \<open>referrer\<close>, contains \<open>campaign\<close>, is \<open>src\<close>,
  contains \<open>affiliate\<close>, or begins with \<open>s_\<close>. The patterns are unanchored unless they
  carry \<open>^\<close> or \<open>$\<close>, so to match a token is to contain it. This holds for every name,
  a sequence of code units, and for every lower-casing function, hence for that of the
  platform.
\<close>

theorem tracking_iff_structural_pattern:
  assumes "lower name \<notin> set PARAMS_TO_KEEP" and "lower name \<notin> set PARAMS_TO_REMOVE"
  shows "looksLikeTracking lower name = shouldRemove lower True name
    \<and> (looksLikeTracking lower name \<longleftrightarrow>
     prefix (js ''_'') (lower name) \<or> suffix (js ''id'') (lower name)
      \<or> sublist (js ''click'') (lower name)
      \<or> sublist (js ''track'') (lower name) \<or> sublist (js ''tracking'') (lower name)
      \<or> sublist (js ''ref'') (lower name) \<or> sublist (js ''refer'') (lower name)
      \<or> sublist (js ''referr'') (lower name) \<or> sublist (js ''referrer'') (lower name)
      \<or> sublist (js ''campaign'') (lower name)
      \<or> lower name = (js ''src'') \<or> sublist (js ''affiliate'') (lower name)
      \<or> prefix (js ''s_'') (lower name))"
proof -
  have "sublist (js ''tracking'') s \<Longrightarrow> sublist (js ''track'') s" for s
    using sublist_longer[of "js ''track''" "js ''ing''" s] by (simp add: js_append[symmetric])
  moreover have "sublist (js ''refer'') s \<Longrightarrow> sublist (js ''ref'') s" for s
    using sublist_longer[of "js ''ref''" "js ''er''" s] by (simp add: js_append[symmetric])
  moreover have "sublist (js ''referr'') s \<Longrightarrow> sublist (js ''ref'') s" for s
    using sublist_longer[of "js ''ref''" "js ''err''" s] by (simp add: js_append[symmetric])
  moreover have "sublist (js ''referrer'') s \<Longrightarrow> sublist (js ''ref'') s" for s
    using sublist_longer[of "js ''ref''" "js ''errer''" s] by (simp add: js_append[symmetric])
  ultimately show ?thesis
    using assms unfolding shouldRemove_def looksLikeTracking_patterns by blast
qed

theorem tracking_iff_structural_pattern_witness:
  "lower_units (js ''Preference'') \<notin> set PARAMS_TO_KEEP
   \<and> lower_units (js ''Preference'') \<notin> set PARAMS_TO_REMOVE
   \<and> sublist (js ''ref'') (lower_units (js ''Preference''))
   \<and> looksLikeTracking lower_units (js ''Preference'')
   \<and> shouldRemove lower_units True (js ''Preference'')"
proof -
  have keep: "lower_units (js ''Preference'') \<notin> set PARAMS_TO_KEEP"
    by code_simp
  have remove: "lower_units (js ''Preference'') \<notin> set PARAMS_TO_REMOVE"
    by code_simp
  have ref: "sublist (js ''ref'') (lower_units (js ''Preference''))"
    by code_simp
  from tracking_iff_structural_pattern
         [where lower = lower_units and name = "js ''Preference''", OF keep remove] ref
  have "looksLikeTracking lower_units (js ''Preference'')
      \<and> shouldRemove lower_units True (js ''Preference'')"
    by blast
  with keep remove ref show ?thesis by blast
qed

section \<open>What each block changes\<close>

lemma stripWww_protocol: "protocol (fst (stripWww opts st)) = protocol (fst st)"
  by (cases st) (simp add: set_hostname_def)

lemma dropDefaultPort_protocol: "protocol (fst (dropDefaultPort opts st)) = protocol (fst st)"
  by (cases st) (simp add: clear_port_def)

lemma cleanSearch_protocol: "protocol (fst (cleanSearch pf opts st)) = protocol (fst st)"
  by (cases st) (simp add: set_search_def Let_def)

lemma dropFragment_protocol: "protocol (fst (dropFragment opts st)) = protocol (fst st)"
  by (cases st) (simp add: clear_hash_def)

lemma normalizePath_protocol: "protocol (fst (normalizePath opts st)) = protocol (fst st)"
  by (cases st) (simp add: set_pathname_def Let_def)

lemma stripWww_log:
  "\<exists>l. snd (stripWww opts st) = snd st @ l \<and> set l \<subseteq> {''Removed www prefix''}"
  by (cases st) simp

lemma dropDefaultPort_log:
  "\<exists>l. snd (dropDefaultPort opts st) = snd st @ l \<and> set l \<subseteq> {''Removed default port''}"
  by (cases st) simp

lemma cleanSearch_log:
  "\<exists>l. snd (cleanSearch pf opts st) = snd st @ l \<and> set l \<subseteq> {''Removed tracking parameters''}"
  by (cases st) (simp add: Let_def)

lemma dropFragment_log:
  "\<exists>l. snd (dropFragment opts st) = snd st @ l \<and> set l \<subseteq> {''Removed URL fragment''}"
  by (cases st) simp

lemma normalizePath_log:
  "\<exists>l. snd (normalizePath opts st) = snd st @ l \<and> set l \<subseteq> {''Normalized path''}"
  by (cases st) (simp add: Let_def)

lemma cleanParsed_protocol:
  "protocol (fst (cleanParsed F pf opts u)) = protocol (fst (upgradeHttps F opts (u, [])))"
  by (simp only: cleanParsed_def normalizePath_protocol dropFragment_protocol
      cleanSearch_protocol dropDefaultPort_protocol stripWww_protocol)

lemma cleanParsed_upgrade_logged:
  "''Upgraded to HTTPS'' \<in> set (snd (cleanParsed F pf opts u))
   \<longleftrightarrow> ''Upgraded to HTTPS'' \<in> set (snd (upgradeHttps F opts (u, [])))"
proof -
  define s1 where "s1 = upgradeHttps F opts (u, [])"
  define s2 where "s2 = stripWww opts s1"
  define s3 where "s3 = dropDefaultPort opts s2"
  define s4 where "s4 = cleanSearch pf opts s3"
  define s5 where "s5 = dropFragment opts s4"
  define s6 where "s6 = normalizePath opts s5"
  have final: "cleanParsed F pf opts u = s6"
    by (simp only: cleanParsed_def s1_def s2_def s3_def s4_def s5_def s6_def)
  obtain l2 where l2: "snd s2 = snd s1 @ l2" "set l2 \<subseteq> {''Removed www prefix''}"
    unfolding s2_def using stripWww_log by blast
  obtain l3 where l3: "snd s3 = snd s2 @ l3" "set l3 \<subseteq> {''Removed default port''}"
    unfolding s3_def using dropDefaultPort_log by blast
  obtain l4 where l4: "snd s4 = snd s3 @ l4" "set l4 \<subseteq> {''Removed tracking parameters''}"
    unfolding s4_def using cleanSearch_log by blast
  obtain l5 where l5: "snd s5 = snd s4 @ l5" "set l5 \<subseteq> {''Removed URL fragment''}"
    unfolding s5_def using dropFragment_log by blast
  obtain l6 where l6: "snd s6 = snd s5 @ l6" "set l6 \<subseteq> {''Normalized path''}"
    unfolding s6_def using normalizePath_log by blast
  have "''Upgraded to HTTPS'' \<notin> set l2" "''Upgraded to HTTPS'' \<notin> set l3"
    "''Upgraded to HTTPS'' \<notin> set l4" "''Upgraded to HTTPS'' \<notin> set l5"
    "''Upgraded to HTTPS'' \<notin> set l6"
    using l2(2) l3(2) l4(2) l5(2) l6(2) by auto
  then show ?thesis
    unfolding final s1_def[symmetric] by (simp add: l2(1) l3(1) l4(1) l5(1) l6(1))
qed

lemma href_scheme: "prefix (protocol u @ ''//'') (href u)"
  by (simp add: href_def)

lemma upgradeHttps_pathname: "pathname (fst (upgradeHttps F opts st)) = pathname (fst st)"
  by (cases st) (simp add: set_protocol_def)

lemma stripWww_pathname: "pathname (fst (stripWww opts st)) = pathname (fst st)"
  by (cases st) (simp add: set_hostname_def)

lemma dropDefaultPort_pathname: "pathname (fst (dropDefaultPort opts st)) = pathname (fst st)"
  by (cases st) (simp add: clear_port_def)

lemma cleanSearch_pathname: "pathname (fst (cleanSearch pf opts st)) = pathname (fst st)"
  by (cases st) (simp add: set_search_def Let_def)

lemma dropFragment_pathname: "pathname (fst (dropFragment opts st)) = pathname (fst st)"
  by (cases st) (simp add: clear_hash_def)

lemma normalizePath_pathname:
  "pathname (fst (normalizePath opts st)) =
     (let p = pathname (fst st) in
      if p = ''/'' then p
      else let path1 = collapse_slashes p;
               path2 = (if flag (removeTrailingSlash opts) \<and> suffix ''/'' path1
                        then butlast path1 else path1)
           in if path2 = [] \<and> p \<noteq> [] \<and> is_special (protocol (fst st)) then ''/'' else path2)"
  by (cases st) (auto simp: set_pathname_def Let_def)

lemma cleanParsed_pathname:
  "pathname (fst (cleanParsed F pf opts u)) =
     (let p = pathname u in
      if p = ''/'' then p
      else let path1 = collapse_slashes p;
               path2 = (if flag (removeTrailingSlash opts) \<and> suffix ''/'' path1
                        then butlast path1 else path1)
           in if path2 = [] \<and> p \<noteq> []
                 \<and> is_special (protocol (fst (upgradeHttps F opts (u, []))))
              then ''/'' else path2)"
  unfolding cleanParsed_def normalizePath_pathname
  by (simp only: dropFragment_pathname cleanSearch_pathname dropDefaultPort_pathname
      stripWww_pathname upgradeHttps_pathname dropFragment_protocol cleanSearch_protocol
      dropDefaultPort_protocol stripWww_protocol fst_conv)

section \<open>The HTTPS upgrade\<close>

lemma parse_plain_x: "parseUrl ''http://example.com/x'' =
   Some \<lparr>protocol = ''http:'', username = [], password = [], hostname = ''example.com'',
         port = [], pathname = ''/x'', query = None, fragment = None\<rparr>"
  by code_simp

text \<open>
  C5. With \<open>tryHttps\<close> enabled and the scheme \<open>http:\<close>, \<open>cleanUrl\<close> returns a result
  whatever the probe does. When the probe is rejected (or answers without success) the
  cleaned URL keeps the scheme \<open>http:\<close> and the change log has no HTTPS entry; when it
  answers with success the cleaned URL has the scheme \<open>https:\<close> and the log has the entry
  "Upgraded to HTTPS".
\<close>

theorem https_upgrade_follows_probe:
  assumes "URL_new s = Some u" and "protocol u = ''http:''"
    and "flag (tryHttps (given_options opts))"
  shows "\<exists>r. cleanUrl URL_new fetch pf s opts = Inr r
     \<and> (fetch (replace_http (href u)) = Rejected \<longrightarrow>
          prefix ''http://'' (cleaned r) \<and> ''Upgraded to HTTPS'' \<notin> set (changes r))
     \<and> (fetch (replace_http (href u)) = Response False \<longrightarrow>
          prefix ''http://'' (cleaned r) \<and> ''Upgraded to HTTPS'' \<notin> set (changes r))
     \<and> (fetch (replace_http (href u)) = Response True \<longrightarrow>
          prefix ''https://'' (cleaned r) \<and> ''Upgraded to HTTPS'' \<in> set (changes r))"
proof -
  let ?st = "cleanParsed fetch pf (given_options opts) u"
  let ?r = "\<lparr>original = href u, cleaned = href (fst ?st), changes = snd ?st\<rparr>"
  have res: "cleanUrl URL_new fetch pf s opts = Inr ?r"
    using assms(1) by (simp add: cleanUrl_def Let_def)
  have sp: "protocol (set_protocol ''https:'' u) = ''https:''"
    using assms(2) by (simp add: set_protocol_def is_special_def)
  have proto: "protocol (fst ?st) = (if canUseHttps fetch (href u) then ''https:'' else ''http:'')"
    using sp assms(2,3) by (simp add: cleanParsed_protocol)
  have logged: "''Upgraded to HTTPS'' \<in> set (snd ?st) \<longleftrightarrow> canUseHttps fetch (href u)"
    using assms(2,3) by (simp add: cleanParsed_upgrade_logged)
  have down: "\<not> canUseHttps fetch (href u) \<Longrightarrow>
      prefix ''http://'' (cleaned ?r) \<and> ''Upgraded to HTTPS'' \<notin> set (changes ?r)"
    using href_scheme[of "fst ?st"] by (simp add: proto logged)
  have upg: "canUseHttps fetch (href u) \<Longrightarrow>
      prefix ''https://'' (cleaned ?r) \<and> ''Upgraded to HTTPS'' \<in> set (changes ?r)"
    using href_scheme[of "fst ?st"] by (simp add: proto logged)
  show ?thesis
    unfolding res using down upg by (auto simp: canUseHttps_def)
qed

theorem https_upgrade_follows_probe_witness:
  "parseUrl ''http://example.com/x'' =
     Some \<lparr>protocol = ''http:'', username = [], password = [], hostname = ''example.com'',
         port = [], pathname = ''/x'', query = None, fragment = None\<rparr>
   \<and> flag (tryHttps (given_options None))
   \<and> probe_up (replace_http ''http://example.com/x'') = Response True
   \<and> (\<exists>r. cleanUrl parseUrl probe_up plain_platform ''http://example.com/x'' None = Inr r
         \<and> prefix ''https://'' (cleaned r) \<and> ''Upgraded to HTTPS'' \<in> set (changes r))"
proof -
  let ?u = "\<lparr>protocol = ''http:'', username = [], password = [], hostname = ''example.com'',
         port = [], pathname = ''/x'', query = None, fragment = None\<rparr>"
  have f: "flag (tryHttps (given_options None))"
    by (simp add: flag_def given_options_def empty_options_def)
  have p: "protocol ?u = ''http:''" by simp
  have h: "href ?u = ''http://example.com/x''"
    by (simp add: href_def credentials_def)
  have up: "probe_up (replace_http ''http://example.com/x'') = Response True"
    by (simp add: probe_up_def)
  from https_upgrade_follows_probe [where URL_new = parseUrl and s = "''http://example.com/x''" and fetch = probe_up
            and pf = plain_platform and opts = None, OF parse_plain_x p f] up h
  have "\<exists>r. cleanUrl parseUrl probe_up plain_platform ''http://example.com/x'' None = Inr r
         \<and> prefix ''https://'' (cleaned r) \<and> ''Upgraded to HTTPS'' \<in> set (changes r)"
    by auto
  with parse_plain_x f up show ?thesis by blast
qed

section \<open>The trailing slash\<close>

lemma parse_root: "parseUrl ''https://example.com/'' =
   Some \<lparr>protocol = ''https:'', username = [], password = [], hostname = ''example.com'',
         port = [], pathname = ''/'', query = None, fragment = None\<rparr>"
  by code_simp

text \<open>
  C9. With \<open>removeTrailingSlash\<close> enabled, the root path \<open>/\<close> stays as it is, and cleaning
  \<open>https://example.com/\<close> returns it unchanged; when the path with its runs of slashes
  collapsed is not \<open>/\<close> and ends in a slash, the path of the cleaned URL is that path
  less its last slash.
\<close>

theorem trailing_slash_root_exempt:
  assumes "flag (removeTrailingSlash os)"
  shows "(pathname u = ''/'' \<longrightarrow> pathname (fst (cleanParsed F pf os u)) = ''/'')
    \<and> (collapse_slashes (pathname u) \<noteq> ''/'' \<and> suffix ''/'' (collapse_slashes (pathname u)) \<longrightarrow>
         pathname (fst (cleanParsed F pf os u)) @ ''/'' = collapse_slashes (pathname u))
    \<and> cleanUrl parseUrl F pf ''https://example.com/'' (Some os) =
         Inr \<lparr>original = ''https://example.com/'', cleaned = ''https://example.com/'',
              changes = []\<rparr>"
proof (intro conjI impI)
  show "pathname (fst (cleanParsed F pf os u)) = ''/''" if "pathname u = ''/''"
    using that by (simp add: cleanParsed_pathname)
next
  assume a: "collapse_slashes (pathname u) \<noteq> ''/'' \<and> suffix ''/'' (collapse_slashes (pathname u))"
  then obtain xs where xs: "collapse_slashes (pathname u) = xs @ ''/''"
    by (auto simp: suffix_def)
  with a have ne: "xs \<noteq> []" by auto
  have "pathname u \<noteq> ''/''" using a by auto
  then show "pathname (fst (cleanParsed F pf os u)) @ ''/'' = collapse_slashes (pathname u)"
    using a assms ne by (simp add: cleanParsed_pathname xs Let_def)
next
  show "cleanUrl parseUrl F pf ''https://example.com/'' (Some os) =
         Inr \<lparr>original = ''https://example.com/'', cleaned = ''https://example.com/'',
              changes = []\<rparr>"
    by (simp add: cleanUrl_def parse_root cleanParsed_def Let_def given_options_def href_def
        search_def hash_def credentials_def)
qed

theorem trailing_slash_root_exempt_witness:
  "flag (removeTrailingSlash empty_options)
   \<and> collapse_slashes ''/a//b//'' = ''/a/b/''
   \<and> pathname (fst (cleanParsed probe_down plain_platform empty_options
        \<lparr>protocol = ''https:'', username = [], password = [], hostname = ''example.com'',
         port = [], pathname = ''/a//b//'', query = None, fragment = None\<rparr>)) = ''/a/b''"
proof -
  let ?u = "\<lparr>protocol = ''https:'', username = [], password = [], hostname = ''example.com'',
         port = [], pathname = ''/a//b//'', query = None, fragment = None\<rparr>"
  have f: "flag (removeTrailingSlash empty_options)"
    by (simp add: flag_def empty_options_def)
  have c: "collapse_slashes ''/a//b//'' = ''/a/b/''" by simp
  have s: "suffix ''/'' ''/a/b/''" by (simp add: suffix_def)
  from trailing_slash_root_exempt
         [where os = empty_options and u = ?u and F = probe_down and pf = plain_platform, OF f]
       c s
  have "pathname (fst (cleanParsed probe_down plain_platform empty_options ?u)) @ ''/'' = ''/a/b/''"
    by simp
  then have "pathname (fst (cleanParsed probe_down plain_platform empty_options ?u)) = ''/a/b''"
    by simp
  with f c show ?thesis by blast
qed

section \<open>The query\<close>

subsection \<open>What the query block writes\<close>

lemma set_search_written: "set_search v u = u\<lparr>query := written_query v\<rparr>"
  by (simp add: set_search_def written_query_def)

lemma upgradeHttps_query: "query (fst (upgradeHttps F opts st)) = query (fst st)"
  by (cases st) (simp add: set_protocol_def)

lemma stripWww_query: "query (fst (stripWww opts st)) = query (fst st)"
  by (cases st) (simp add: set_hostname_def)

lemma dropDefaultPort_query: "query (fst (dropDefaultPort opts st)) = query (fst st)"
  by (cases st) (simp add: clear_port_def)

lemma dropFragment_query: "query (fst (dropFragment opts st)) = query (fst st)"
  by (cases st) (simp add: clear_hash_def)

lemma normalizePath_query: "query (fst (normalizePath opts st)) = query (fst st)"
  by (cases st) (simp add: set_pathname_def Let_def)

lemma cleanSearch_fst:
  "search (fst st) \<noteq> [] \<Longrightarrow>
   fst (cleanSearch pf os st) =
     set_search (URLSearchParams_toString pf (sentParams pf os (search (fst st)))) (fst st)"
  by (cases st) (auto simp: Let_def sentParams_def)

lemma cleanSearch_query:
  "query (fst (cleanSearch pf opts st)) =
     (if search (fst st) = [] then query (fst st)
      else written_query (URLSearchParams_toString pf (sentParams pf opts (search (fst st)))))"
proof (cases "search (fst st) = []")
  case True
  then show ?thesis by (cases st) simp
next
  case False
  then show ?thesis by (simp add: cleanSearch_fst set_search_written)
qed

lemma search_cong: "query a = query b \<Longrightarrow> search a = search b"
  by (simp add: search_def)

lemma cleanParsed_query:
  "query (fst (cleanParsed F pf opts u)) =
     (if search u = [] then query u
      else written_query (URLSearchParams_toString pf (sentParams pf opts (search u))))"
proof -
  let ?st = "dropDefaultPort opts (stripWww opts (upgradeHttps F opts (u, [])))"
  have q: "query (fst ?st) = query u"
    by (simp only: dropDefaultPort_query stripWww_query upgradeHttps_query fst_conv)
  then have s: "search (fst ?st) = search u" by (rule search_cong)
  show ?thesis
    unfolding cleanParsed_def
    by (simp only: normalizePath_query dropFragment_query cleanSearch_query q s)
qed

lemma sorted_example:
  "cleanUrl parseUrl probe_down plain_platform ''https://example.com/?b=2&a=1&a=2'' None =
       Inr \<lparr>original = ''https://example.com/?b=2&a=1&a=2'',
            cleaned = ''https://example.com/?a=1&a=2&b=2'',
            changes = [''Removed tracking parameters'']\<rparr>"
  by code_simp

text \<open>
  C3, as the code has it. With \<open>sortParams\<close> enabled and a non-empty query, the query of
  the cleaned URL is the one written by assigning to \<open>url.search\<close> the serialisation of
  the surviving pairs sorted by \<open>array_sort\<close>: in ascending order of the strings
  "key,value" compared code unit by code unit, the same pairs as before, those with the
  same such string in their original order. So pairs of equal key are ordered by value.
  The query \<open>?b=2&a=1&a=2\<close> becomes \<open>?a=1&a=2&b=2\<close>.
\<close>

theorem sortParams_orders_by_entry_string:
  assumes "flag (sortParams os)" and "search u \<noteq> []"
  shows "query (fst (cleanParsed F pf os u)) =
           written_query (URLSearchParams_toString pf
             (array_sort (cleanedParams pf os (URLSearchParams_new pf (search u)))))
     \<and> sorted (map entry_string
           (array_sort (cleanedParams pf os (URLSearchParams_new pf (search u)))))
     \<and> mset (array_sort (cleanedParams pf os (URLSearchParams_new pf (search u))))
         = mset (cleanedParams pf os (URLSearchParams_new pf (search u)))
     \<and> (\<forall>k. filter (\<lambda>e. entry_string e = k)
                (array_sort (cleanedParams pf os (URLSearchParams_new pf (search u))))
            = filter (\<lambda>e. entry_string e = k)
                (cleanedParams pf os (URLSearchParams_new pf (search u))))
     \<and> cleanUrl parseUrl probe_down plain_platform ''https://example.com/?b=2&a=1&a=2'' None =
       Inr \<lparr>original = ''https://example.com/?b=2&a=1&a=2'',
            cleaned = ''https://example.com/?a=1&a=2&b=2'',
            changes = [''Removed tracking parameters'']\<rparr>"
  using assms
  by (simp add: cleanParsed_query sentParams_def sorted_example)
     (simp add: array_sort_def sort_key_stable)

theorem sortParams_orders_by_entry_string_witness:
  "flag (sortParams empty_options)
   \<and> search \<lparr>protocol = ''https:'', username = [], password = [], hostname = ''example.com'',
           port = [], pathname = ''/'', query = Some ''b=2&a=1&a=2'', fragment = None\<rparr> \<noteq> []
   \<and> query (fst (cleanParsed probe_down plain_platform empty_options
        \<lparr>protocol = ''https:'', username = [], password = [], hostname = ''example.com'',
           port = [], pathname = ''/'', query = Some ''b=2&a=1&a=2'', fragment = None\<rparr>))
       = Some ''a=1&a=2&b=2''"
proof -
  let ?u = "\<lparr>protocol = ''https:'', username = [], password = [], hostname = ''example.com'',
           port = [], pathname = ''/'', query = Some ''b=2&a=1&a=2'', fragment = None\<rparr>"
  have f: "flag (sortParams empty_options)"
    by (simp add: flag_def empty_options_def)
  have s: "search ?u \<noteq> []"
    by (simp add: search_def)
  have written: "written_query (URLSearchParams_toString plain_platform
      (array_sort (cleanedParams plain_platform empty_options
         (URLSearchParams_new plain_platform (search ?u))))) = Some ''a=1&a=2&b=2''"
    by code_simp
  from sortParams_orders_by_entry_string
         [where os = empty_options and u = ?u and F = probe_down and pf = plain_platform,
          OF f s]
  have "query (fst (cleanParsed probe_down plain_platform empty_options ?u))
      = Some ''a=1&a=2&b=2''"
    by (simp only: written)
  with f s show ?thesis by (intro conjI)
qed

text \<open>
  C3, as the specification has it, fails: in \<open>?a=2&a=1\<close> both pairs survive, a stable sort
  by key would keep them in this order, and the code returns \<open>?a=1&a=2\<close>.
\<close>

theorem equal_keys_reordered_by_value:
  "cleanedParams plain_platform empty_options
       (URLSearchParams_new plain_platform ''?a=2&a=1'')
     = [(js ''a'', js ''2''), (js ''a'', js ''1'')]
   \<and> stable_sort_by_key [(js ''a'', js ''2''), (js ''a'', js ''1'')]
     = [(js ''a'', js ''2''), (js ''a'', js ''1'')]
   \<and> array_sort [(js ''a'', js ''2''), (js ''a'', js ''1'')]
     = [(js ''a'', js ''1''), (js ''a'', js ''2'')]
   \<and> cleanUrl parseUrl probe_down plain_platform ''https://example.com/?a=2&a=1'' None =
       Inr \<lparr>original = ''https://example.com/?a=2&a=1'',
            cleaned = ''https://example.com/?a=1&a=2'',
            changes = [''Removed tracking parameters'']\<rparr>"
  by code_simp

subsection \<open>The length test of the query block\<close>

lemma cleanSearch_snd:
  "search (fst st) \<noteq> [] \<Longrightarrow>
   snd (cleanSearch pf os st) =
     (if length (search (set_search
            (URLSearchParams_toString pf (sentParams pf os (search (fst st)))) (fst st)))
         \<noteq> length (URLSearchParams_toString pf (URLSearchParams_new pf (search (fst st))))
      then snd st @ [''Removed tracking parameters''] else snd st)"
  by (cases st) (auto simp: Let_def sentParams_def)

text \<open>
  Whenever the query that the block writes is not empty and is as long as the
  serialisation of the parameters before the block, the entry is logged: the two lengths
  that the block compares differ by the question mark.
\<close>

lemma unchanged_query_is_logged:
  assumes "search u \<noteq> []"
    and "written_query (URLSearchParams_toString pf (sentParams pf os (search u))) = Some q"
    and "q \<noteq> []"
    and "length q = length (URLSearchParams_toString pf (URLSearchParams_new pf (search u)))"
  shows "''Removed tracking parameters'' \<in> set (snd (cleanParsed F pf os u))"
proof -
  define s3 where "s3 = dropDefaultPort os (stripWww os (upgradeHttps F os (u, [])))"
  define s4 where "s4 = cleanSearch pf os s3"
  define s5 where "s5 = dropFragment os s4"
  define s6 where "s6 = normalizePath os s5"
  have final: "cleanParsed F pf os u = s6"
    by (simp only: cleanParsed_def s3_def s4_def s5_def s6_def)
  have "query (fst s3) = query u"
    unfolding s3_def
    by (simp only: dropDefaultPort_query stripWww_query upgradeHttps_query fst_conv)
  then have srch: "search (fst s3) = search u" by (rule search_cong)
  define V where "V = URLSearchParams_toString pf (sentParams pf os (search u))"
  define n where "n = length (URLSearchParams_toString pf (URLSearchParams_new pf (search u)))"
  have wq: "written_query V = Some q"
    using assms(2) by (simp only: V_def)
  have "search (set_search V (fst s3)) = CHR ''?'' # q"
    using assms(3) by (simp add: set_search_written wq search_def)
  then have longer: "length (search (set_search V (fst s3))) \<noteq> n"
    using assms(4) by (simp add: n_def)
  have ne: "search (fst s3) \<noteq> []"
    using assms(1) by (simp add: srch)
  have l4: "snd s4 = snd s3 @ [''Removed tracking parameters'']"
    unfolding s4_def cleanSearch_snd[OF ne] srch V_def[symmetric] n_def[symmetric]
    using longer by simp
  obtain l5 where l5: "snd s5 = snd s4 @ l5"
    unfolding s5_def using dropFragment_log by blast
  obtain l6 where l6: "snd s6 = snd s5 @ l6"
    unfolding s6_def using normalizePath_log by blast
  show ?thesis
    unfolding final by (simp add: l4 l5 l6)
qed

text \<open>
  C1. The length of \<open>url.search\<close>, which counts the leading \<open>?\<close>, is compared with the
  length of the serialised parameters, which has none: a URL that already satisfies
  every rule and has a query is reported with the entry "Removed tracking parameters",
  although its cleaned form is its original form.
\<close>

theorem kept_query_logged_as_removal:
  "cleanUrl parseUrl probe_down plain_platform ''https://example.com/?a=1'' None =
     Inr \<lparr>original = ''https://example.com/?a=1'', cleaned = ''https://example.com/?a=1'',
          changes = [''Removed tracking parameters'']\<rparr>"
  by code_simp

section \<open>Cleaning a cleaned URL\<close>

subsection \<open>Collapsed paths\<close>







subsection \<open>Blocks that find nothing to do\<close>



lemma dropDefaultPort_idle:
  "\<not> (flag (removeDefaultPorts os) \<and> ((protocol v = ''http:'' \<and> port v = ''80'')
        \<or> (protocol v = ''https:'' \<and> port v = ''443''))) \<Longrightarrow>
   dropDefaultPort os (v, ch) = (v, ch)"
  by auto







subsection \<open>What holds of a cleaned URL\<close>



















section \<open>The default port\<close>

lemma upgradeHttps_log:
  "\<exists>l. snd (upgradeHttps F opts st) = snd st @ l \<and> set l \<subseteq> {''Upgraded to HTTPS''}"
  by (cases st) simp

lemma stripWww_port: "port (fst (stripWww opts st)) = port (fst st)"
  by (cases st) (simp add: set_hostname_def)

lemma upgradeHttps_no_default_port:
  assumes "\<not> (protocol u = ''http:'' \<and> port u = ''80'')"
    and "\<not> (protocol u = ''https:'' \<and> port u = ''443'')"
  shows "\<not> ((protocol (fst (upgradeHttps F os (u, ch))) = ''http:''
             \<and> port (fst (upgradeHttps F os (u, ch))) = ''80'')
          \<or> (protocol (fst (upgradeHttps F os (u, ch))) = ''https:''
             \<and> port (fst (upgradeHttps F os (u, ch))) = ''443''))"
  using assms by (auto simp: set_protocol_def is_special_def default_port_def)

text \<open>
  A parsed URL never holds the default port of its scheme, and the protocol setter drops
  port 443 on the upgrade: on the URL objects that \<open>new URL\<close> builds, the block never logs.
\<close>

lemma default_port_block_is_dead:
  assumes "\<not> (protocol u = ''http:'' \<and> port u = ''80'')"
    and "\<not> (protocol u = ''https:'' \<and> port u = ''443'')"
  shows "''Removed default port'' \<notin> set (snd (cleanParsed F pf os u))"
proof -
  define s1 where "s1 = upgradeHttps F os (u, [])"
  define s2 where "s2 = stripWww os s1"
  define s3 where "s3 = dropDefaultPort os s2"
  define s4 where "s4 = cleanSearch pf os s3"
  define s5 where "s5 = dropFragment os s4"
  define s6 where "s6 = normalizePath os s5"
  have final: "cleanParsed F pf os u = s6"
    by (simp only: cleanParsed_def s1_def s2_def s3_def s4_def s5_def s6_def)
  obtain l1 where l1: "snd s1 = [] @ l1" "set l1 \<subseteq> {''Upgraded to HTTPS''}"
    unfolding s1_def using upgradeHttps_log[of F os "(u, [])"] by auto
  obtain l2 where l2: "snd s2 = snd s1 @ l2" "set l2 \<subseteq> {''Removed www prefix''}"
    unfolding s2_def using stripWww_log by blast
  have "\<not> ((protocol (fst s2) = ''http:'' \<and> port (fst s2) = ''80'')
          \<or> (protocol (fst s2) = ''https:'' \<and> port (fst s2) = ''443''))"
    unfolding s2_def s1_def stripWww_protocol stripWww_port
    using assms by (rule upgradeHttps_no_default_port)
  then have "dropDefaultPort os (fst s2, snd s2) = (fst s2, snd s2)"
    by (intro dropDefaultPort_idle) blast
  then have l3: "snd s3 = snd s2"
    by (simp add: s3_def)
  obtain l4 where l4: "snd s4 = snd s3 @ l4" "set l4 \<subseteq> {''Removed tracking parameters''}"
    unfolding s4_def using cleanSearch_log by blast
  obtain l5 where l5: "snd s5 = snd s4 @ l5" "set l5 \<subseteq> {''Removed URL fragment''}"
    unfolding s5_def using dropFragment_log by blast
  obtain l6 where l6: "snd s6 = snd s5 @ l6" "set l6 \<subseteq> {''Normalized path''}"
    unfolding s6_def using normalizePath_log by blast
  have "''Removed default port'' \<notin> set l1" "''Removed default port'' \<notin> set l2"
    "''Removed default port'' \<notin> set l4" "''Removed default port'' \<notin> set l5"
    "''Removed default port'' \<notin> set l6"
    using l1(2) l2(2) l4(2) l5(2) l6(2) by auto
  then show ?thesis
    unfolding final by (simp add: l1(1) l2(1) l3 l4(1) l5(1) l6(1))
qed

text \<open>
  C7. \<open>new URL\<close> never keeps the default port of the scheme, so the block that removes
  it finds nothing to remove: \<open>http://example.com:80/x\<close> is cleaned to
  \<open>http://example.com/x\<close>, with no entry "Removed default port" in the change log.
\<close>

theorem default_port_parsed_away:
  "cleanUrl parseUrl probe_down plain_platform ''http://example.com:80/x'' None =
     Inr \<lparr>original = ''http://example.com/x'', cleaned = ''http://example.com/x'', changes = []\<rparr>"
  by code_simp

end
